theory Spec2Isabelle
  imports Main "HOL-Library.AList" "HOL-Library.Multiset"
begin

section \<open>Python values and built-ins used by app.py\<close>

text \<open>
  The values that \<^verbatim>\<open>json.load\<close> produces, which are also the values the handlers
  compute with. The type parameter \<open>'f\<close> is Python's \<^verbatim>\<open>float\<close>; its arithmetic is not
  modelled. A \<^verbatim>\<open>dict\<close> is an association list in insertion order, read with
  \<open>map_of\<close> and written with \<open>AList.update\<close> (an existing key keeps its position, a
  new key goes to the end, as in Python).
\<close>

datatype 'f json =
    JNull
  | JBool bool
  | JInt int
  | JFloat 'f
  | JStr string
  | JList "'f json list"
  | JObj "(string \<times> 'f json) list"

type_synonym 'f obj = "(string \<times> 'f json) list"

datatype py_error = AttributeError | TypeError | KeyError

text \<open>
  The interpreter's own conversions that the code calls and that are taken as given:
  \<^verbatim>\<open>float(n)\<close> on an int (\<open>None\<close>: OverflowError), \<^verbatim>\<open>float(s)\<close> on a str
  (\<open>None\<close>: ValueError), and \<^verbatim>\<open>repr\<close> of a float and of a str. The float literal
  \<^verbatim>\<open>0.0\<close> is \<open>0 :: 'f\<close>.
\<close>

record 'f builtins =
  float_of_int :: "int \<Rightarrow> 'f option"
  float_of_str :: "string \<Rightarrow> 'f option"
  repr_float :: "'f \<Rightarrow> string"
  repr_str :: "string \<Rightarrow> string"

subsection \<open>Strings\<close>

text \<open>
  A \<open>char\<close> is a code point below 256. \<^verbatim>\<open>str.lower\<close> maps A-Z and the upper-case
  letters of Latin-1 (U+00C0..U+00DE without U+00D7) to the code point 32 above;
  \<^verbatim>\<open>str.strip\<close> removes the code points for which \<^verbatim>\<open>str.isspace\<close> holds.
\<close>

definition lower_char :: "char \<Rightarrow> char" where
  "lower_char c =
     (let n = (of_char c :: nat)
      in if (65 \<le> n \<and> n \<le> 90) \<or> (192 \<le> n \<and> n \<le> 214) \<or> (216 \<le> n \<and> n \<le> 222)
         then char_of (n + 32) else c)"

definition py_lower :: "string \<Rightarrow> string" where
  "py_lower s = map lower_char s"

definition isspace :: "char \<Rightarrow> bool" where
  "isspace c = ((of_char c :: nat) \<in> {9, 10, 11, 12, 13, 28, 29, 30, 31, 32, 133, 160})"

definition py_strip :: "string \<Rightarrow> string" where
  "py_strip s = rev (dropWhile isspace (rev (dropWhile isspace s)))"

text \<open>\<^verbatim>\<open>sub in s\<close> on two strings: \<open>sub\<close> occurs in \<open>s\<close> as a contiguous block.\<close>

fun starts_with :: "string \<Rightarrow> string \<Rightarrow> bool" where
  "starts_with [] s = True"
| "starts_with (a # sub) [] = False"
| "starts_with (a # sub) (b # s) = (a = b \<and> starts_with sub s)"

fun py_in :: "string \<Rightarrow> string \<Rightarrow> bool" where
  "py_in sub [] = (sub = [])"
| "py_in sub (b # s) = (starts_with sub (b # s) \<or> py_in sub s)"

text \<open>Decimal digits of an int, as \<^verbatim>\<open>str(n)\<close> prints them.\<close>

definition digit_char :: "nat \<Rightarrow> char" where
  "digit_char d = char_of (48 + d)"

function str_nat :: "nat \<Rightarrow> string" where
  "str_nat n = (if n < 10 then [digit_char n] else str_nat (n div 10) @ [digit_char (n mod 10)])"
  by pat_completeness auto
termination
  by (relation "measure id") auto

declare str_nat.simps [simp del]

definition str_int :: "int \<Rightarrow> string" where
  "str_int i = (if i < 0 then CHR ''-'' # str_nat (nat (- i)) else str_nat (nat i))"

fun join :: "string \<Rightarrow> string list \<Rightarrow> string" where
  "join sep [] = []"
| "join sep [x] = x"
| "join sep (x # y # ys) = x @ sep @ join sep (y # ys)"

text \<open>\<^verbatim>\<open>repr(v)\<close> and \<^verbatim>\<open>str(v)\<close>; they differ on a str only.\<close>

fun py_repr :: "'f builtins \<Rightarrow> 'f json \<Rightarrow> string" where
  "py_repr B JNull = ''None''"
| "py_repr B (JBool b) = (if b then ''True'' else ''False'')"
| "py_repr B (JInt n) = str_int n"
| "py_repr B (JFloat x) = repr_float B x"
| "py_repr B (JStr s) = repr_str B s"
| "py_repr B (JList xs) = ''['' @ join '', '' (map (py_repr B) xs) @ '']''"
| "py_repr B (JObj kvs) =
     ''{'' @ join '', '' (map (\<lambda>kv. repr_str B (fst kv) @ '': '' @ py_repr B (snd kv)) kvs) @ ''}''"

definition py_str :: "'f builtins \<Rightarrow> 'f json \<Rightarrow> string" where
  "py_str B v = (case v of JStr s \<Rightarrow> s | _ \<Rightarrow> py_repr B v)"

text \<open>\<^verbatim>\<open>float(v)\<close>; \<open>None\<close> when it raises (TypeError, ValueError, OverflowError).\<close>

definition py_float :: "'f builtins \<Rightarrow> 'f json \<Rightarrow> 'f option" where
  "py_float B v =
     (case v of
        JFloat x \<Rightarrow> Some x
      | JInt n \<Rightarrow> float_of_int B n
      | JBool b \<Rightarrow> float_of_int B (if b then 1 else 0)
      | JStr s \<Rightarrow> float_of_str B s
      | _ \<Rightarrow> None)"

text \<open>\<^verbatim>\<open>d.get(k, dflt)\<close>; \<^verbatim>\<open>d.get(k)\<close> is \<open>dict_get d k JNull\<close>.\<close>

definition dict_get :: "('k \<times> 'v) list \<Rightarrow> 'k \<Rightarrow> 'v \<Rightarrow> 'v" where
  "dict_get d k dflt = (case map_of d k of None \<Rightarrow> dflt | Some v \<Rightarrow> v)"

section \<open>Global product caches\<close>

text \<open>
  \<^verbatim>\<open>PRODUCTS_MAP: Dict[str, Dict[str, Any]]\<close>, \<^verbatim>\<open>PRODUCT_NAMES_MAP: Dict[str, str]\<close>
  and \<^verbatim>\<open>RECOMMENDATIONS\<close>, which holds whatever the recommendation file decoded to.
\<close>

record 'f state =
  PRODUCTS_MAP :: "(string \<times> 'f obj) list"
  PRODUCT_NAMES_MAP :: "(string \<times> string) list"
  RECOMMENDATIONS :: "'f json"

section \<open>load_data\<close>

text \<open>
  A file of the data directory: it does not exist, it exists but opening or decoding it
  raises, or it decodes to a value. \<open>None\<close> for the directory: \<^verbatim>\<open>DATA_DIR\<close> does not
  exist.
\<close>

datatype 'f json_file = Missing | Unreadable | Parsed "'f json"

record 'f data_dir =
  product_matrix :: "'f json_file"
  product_index_map :: "'f json_file"
  precomputed_hybrid :: "'f json_file"

text \<open>
  One turn of the loop over \<^verbatim>\<open>data_list\<close> (lines 85-90) on the two maps. The result
  carries the maps as they are when the turn ends or raises: the write to
  \<^verbatim>\<open>PRODUCTS_MAP\<close> precedes the \<^verbatim>\<open>.strip()\<close> that can raise.
\<close>

definition derive_pid :: "'f builtins \<Rightarrow> 'f obj \<Rightarrow> string" where
  "derive_pid B item =
     py_str B (dict_get item ''product_id_numeric'' (dict_get item ''product_id'' (JStr ''N/A'')))"

definition load_item ::
  "'f builtins \<Rightarrow> 'f json \<Rightarrow> (string \<times> 'f obj) list \<times> (string \<times> string) list \<Rightarrow>
   py_error option \<times> (string \<times> 'f obj) list \<times> (string \<times> string) list" where
  "load_item B item maps =
     (case item of
        JStr s \<Rightarrow> (None, maps)
      | JObj d \<Rightarrow>
          (let pid = derive_pid B d
           in if pid \<noteq> ''None''
              then (let products = AList.update pid d (fst maps)
                    in case dict_get d ''product_name'' (JStr []) of
                         JStr nm \<Rightarrow> (None, products, AList.update (py_strip nm) pid (snd maps))
                       | _ \<Rightarrow> (Some AttributeError, products, snd maps))
              else (None, maps))
      | _ \<Rightarrow> (Some AttributeError, maps))"

fun load_items ::
  "'f builtins \<Rightarrow> 'f json list \<Rightarrow> (string \<times> 'f obj) list \<times> (string \<times> string) list \<Rightarrow>
   py_error option \<times> (string \<times> 'f obj) list \<times> (string \<times> string) list" where
  "load_items B [] maps = (None, maps)"
| "load_items B (item # items) maps =
     (case load_item B item maps of
        (Some e, maps') \<Rightarrow> (Some e, maps')
      | (None, maps') \<Rightarrow> load_items B items maps')"

definition data_list :: "'f json \<Rightarrow> 'f json list" where
  "data_list raw = (case raw of JList xs \<Rightarrow> xs | JObj kvs \<Rightarrow> map snd kvs | _ \<Rightarrow> [])"

definition matrix_path :: "'f data_dir \<Rightarrow> 'f json_file" where
  "matrix_path dir =
     (if product_matrix dir \<noteq> Missing then product_matrix dir else product_index_map dir)"

definition load_data :: "'f builtins \<Rightarrow> 'f data_dir option \<Rightarrow> 'f state" where
  "load_data B dir_opt =
     (case dir_opt of
        None \<Rightarrow> \<lparr>PRODUCTS_MAP = [], PRODUCT_NAMES_MAP = [], RECOMMENDATIONS = JObj []\<rparr>
      | Some dir \<Rightarrow>
          (let maps = (case matrix_path dir of
                         Parsed raw \<Rightarrow> snd (load_items B (data_list raw) ([], []))
                       | _ \<Rightarrow> ([], []));
               recs = (case precomputed_hybrid dir of Parsed r \<Rightarrow> r | _ \<Rightarrow> JObj [])
           in \<lparr>PRODUCTS_MAP = fst maps, PRODUCT_NAMES_MAP = snd maps, RECOMMENDATIONS = recs\<rparr>))"

section \<open>normalize_product\<close>

record 'f product =
  p_id :: string
  name :: "'f json"
  brand :: "'f json"
  rating :: "'f json"
  prices :: 'f
  discounted_price :: 'f
  img_link :: "'f json"
  p_link :: "'f json"

definition list_price :: "'f::zero builtins \<Rightarrow> 'f obj \<Rightarrow> 'f" where
  "list_price B p =
     (case py_float B (dict_get p ''actual_price'' (JInt 0)) of Some x \<Rightarrow> x | None \<Rightarrow> 0)"

definition disc_price :: "'f builtins \<Rightarrow> 'f obj \<Rightarrow> 'f \<Rightarrow> 'f" where
  "disc_price B p price =
     (case py_float B (dict_get p ''discounted_price'' (JFloat price)) of
        Some x \<Rightarrow> x | None \<Rightarrow> price)"

definition normalize_product :: "'f::zero builtins \<Rightarrow> 'f obj \<Rightarrow> 'f product" where
  "normalize_product B p =
     (let price = list_price B p;
          disc = disc_price B p price
      in \<lparr>p_id = py_str B (dict_get p ''product_id_numeric'' JNull),
          name = dict_get p ''product_name'' (JStr ''Unknown''),
          brand = dict_get p ''Brand'' (JStr ''Generic''),
          rating = dict_get p ''rating'' (JInt 0),
          prices = price,
          discounted_price = disc,
          img_link = dict_get p ''img_link'' (JStr []),
          p_link = dict_get p ''product_link'' (JStr ''#'')\<rparr>)"

section \<open>get_top_products\<close>

definition get_top_products :: "'f::zero builtins \<Rightarrow> 'f state \<Rightarrow> 'f product list" where
  "get_top_products B st =
     (if PRODUCTS_MAP st = [] then []
      else map (normalize_product B) (take 20 (map snd (PRODUCTS_MAP st))))"

section \<open>search_products\<close>

text \<open>Line 226: \<^verbatim>\<open>query == str(p.get("Brand")).lower()\<close>.\<close>

definition brand_lower :: "'f builtins \<Rightarrow> 'f obj \<Rightarrow> string" where
  "brand_lower B p = py_lower (py_str B (dict_get p ''Brand'' JNull))"

definition brand_matches :: "'f builtins \<Rightarrow> (string \<times> 'f obj) list \<Rightarrow> string \<Rightarrow> 'f obj list" where
  "brand_matches B products query = filter (\<lambda>p. query = brand_lower B p) (map snd products)"

text \<open>
  Lines 233 and 250: \<^verbatim>\<open>p.get("product_name", "").lower()\<close>. Only a str has
  \<^verbatim>\<open>.lower\<close>; on any other value the attribute access raises.
\<close>

definition name_lower :: "'f obj \<Rightarrow> py_error + string" where
  "name_lower p =
     (case dict_get p ''product_name'' (JStr []) of
        JStr s \<Rightarrow> Inr (py_lower s)
      | _ \<Rightarrow> Inl AttributeError)"

text \<open>Lines 231-235: the scan for \<^verbatim>\<open>matched_id\<close>, which stops at the first hit.\<close>

fun find_matched_id :: "string \<Rightarrow> (string \<times> 'f obj) list \<Rightarrow> py_error + string option" where
  "find_matched_id query [] = Inr None"
| "find_matched_id query ((pid, p) # rest) =
     (case name_lower p of
        Inl e \<Rightarrow> Inl e
      | Inr n \<Rightarrow> if py_in query n then Inr (Some pid) else find_matched_id query rest)"

text \<open>
  What lines 237-239 do to \<^verbatim>\<open>RECOMMENDATIONS\<close> and to one of its values, on every
  shape a decoded file can have: \<^verbatim>\<open>k in c\<close>, \<^verbatim>\<open>c[k]\<close> and \<^verbatim>\<open>for rec in c\<close>.
\<close>

definition py_contains :: "'f json \<Rightarrow> string \<Rightarrow> py_error + bool" where
  "py_contains c k =
     (case c of
        JObj kvs \<Rightarrow> Inr (k \<in> set (map fst kvs))
      | JList xs \<Rightarrow> Inr (JStr k \<in> set xs)
      | JStr s \<Rightarrow> Inr (py_in k s)
      | _ \<Rightarrow> Inl TypeError)"

definition py_getitem :: "'f json \<Rightarrow> string \<Rightarrow> py_error + 'f json" where
  "py_getitem c k =
     (case c of
        JObj kvs \<Rightarrow> (case map_of kvs k of None \<Rightarrow> Inl KeyError | Some v \<Rightarrow> Inr v)
      | _ \<Rightarrow> Inl TypeError)"

definition py_iter :: "'f json \<Rightarrow> py_error + 'f json list" where
  "py_iter c =
     (case c of
        JList xs \<Rightarrow> Inr xs
      | JObj kvs \<Rightarrow> Inr (map (\<lambda>kv. JStr (fst kv)) kvs)
      | JStr s \<Rightarrow> Inr (map (\<lambda>ch. JStr [ch]) s)
      | _ \<Rightarrow> Inl TypeError)"

text \<open>
  Lines 240-242 for one \<^verbatim>\<open>rec\<close>: \<^verbatim>\<open>rec.get\<close> needs a dict, \<^verbatim>\<open>name in
  PRODUCT_NAMES_MAP\<close> needs a hashable name (a list or a dict is not) and is false for a
  name that is not a str, since every key is one; \<^verbatim>\<open>PRODUCTS_MAP[...]\<close> raises on a
  missing key.
\<close>

definition rec_name :: "'f json \<Rightarrow> py_error + 'f json" where
  "rec_name r = (case r of JObj d \<Rightarrow> Inr (dict_get d ''product_name'' JNull) | _ \<Rightarrow> Inl AttributeError)"

definition name_known :: "(string \<times> string) list \<Rightarrow> 'f json \<Rightarrow> py_error + string option" where
  "name_known names nm =
     (case nm of
        JStr s \<Rightarrow> Inr (map_of names s)
      | JList xs \<Rightarrow> Inl TypeError
      | JObj kvs \<Rightarrow> Inl TypeError
      | _ \<Rightarrow> Inr None)"

fun collect_recs ::
  "(string \<times> 'f obj) list \<Rightarrow> (string \<times> string) list \<Rightarrow> 'f json list \<Rightarrow> 'f obj list \<Rightarrow>
   py_error + 'f obj list" where
  "collect_recs products names [] results = Inr results"
| "collect_recs products names (r # rec_lst) results =
     (case rec_name r of
        Inl e \<Rightarrow> Inl e
      | Inr nm \<Rightarrow>
          (case name_known names nm of
             Inl e \<Rightarrow> Inl e
           | Inr None \<Rightarrow> collect_recs products names rec_lst results
           | Inr (Some pid) \<Rightarrow>
               (case map_of products pid of
                  None \<Rightarrow> Inl KeyError
                | Some p \<Rightarrow> collect_recs products names rec_lst (results @ [p]))))"

text \<open>
  Lines 237-242: \<^verbatim>\<open>results\<close> after the block. \<^verbatim>\<open>if matched_id and ...\<close> is false
  for \<^verbatim>\<open>None\<close> and for the empty string, without looking at \<^verbatim>\<open>RECOMMENDATIONS\<close>.
\<close>

definition hybrid_recs :: "'f state \<Rightarrow> string option \<Rightarrow> py_error + 'f obj list" where
  "hybrid_recs st matched_id =
     (case matched_id of
        None \<Rightarrow> Inr []
      | Some m \<Rightarrow>
          if m = [] then Inr []
          else (case py_contains (RECOMMENDATIONS st) m of
                  Inl e \<Rightarrow> Inl e
                | Inr False \<Rightarrow> Inr []
                | Inr True \<Rightarrow>
                    (case py_getitem (RECOMMENDATIONS st) m of
                       Inl e \<Rightarrow> Inl e
                     | Inr rec_lst \<Rightarrow>
                         (case py_iter rec_lst of
                            Inl e \<Rightarrow> Inl e
                          | Inr rs \<Rightarrow> collect_recs (PRODUCTS_MAP st) (PRODUCT_NAMES_MAP st) rs []))))"

text \<open>Lines 247-255: the loop that fills \<^verbatim>\<open>scored\<close>.\<close>

definition brand_bonus :: "'f builtins \<Rightarrow> string \<Rightarrow> 'f obj \<Rightarrow> nat" where
  "brand_bonus B query p = (if py_in query (brand_lower B p) then 5 else 0)"

fun score_items ::
  "'f builtins \<Rightarrow> string \<Rightarrow> (string \<times> 'f obj) list \<Rightarrow> (nat \<times> 'f obj) list \<Rightarrow>
   py_error + (nat \<times> 'f obj) list" where
  "score_items B query [] scored = Inr scored"
| "score_items B query ((pid, p) # rest) scored =
     (case name_lower p of
        Inl e \<Rightarrow> Inl e
      | Inr n \<Rightarrow>
          (let score = (if py_in query n then 10 else 0) + brand_bonus B query p
           in score_items B query rest (if score > 0 then scored @ [(score, p)] else scored)))"

text \<open>
  \<^verbatim>\<open>list.sort(key=..., reverse=True)\<close>: descending by key, elements with equal keys
  in their original order. It is the stable insertion sort of the library on the negated
  key.
\<close>

definition sort_reverse :: "('a \<Rightarrow> nat) \<Rightarrow> 'a list \<Rightarrow> 'a list" where
  "sort_reverse key xs = sort_key (\<lambda>x. - int (key x)) xs"

definition fallback_scoring ::
  "'f::zero builtins \<Rightarrow> (string \<times> 'f obj) list \<Rightarrow> string \<Rightarrow> py_error + 'f product list" where
  "fallback_scoring B products query =
     (case score_items B query products [] of
        Inl e \<Rightarrow> Inl e
      | Inr scored \<Rightarrow>
          Inr (map (\<lambda>item. normalize_product B (snd item)) (take 20 (sort_reverse fst scored))))"

definition search_products ::
  "'f::zero builtins \<Rightarrow> 'f state \<Rightarrow> string option \<Rightarrow> py_error + 'f product list" where
  "search_products B st q =
     (let query = py_strip (py_lower (case q of None \<Rightarrow> [] | Some s \<Rightarrow> s))
      in if query = [] then Inr []
         else (let bm = brand_matches B (PRODUCTS_MAP st) query
               in if bm \<noteq> [] then Inr (map (normalize_product B) (take 20 bm))
                  else (case find_matched_id query (PRODUCTS_MAP st) of
                          Inl e \<Rightarrow> Inl e
                        | Inr matched_id \<Rightarrow>
                            (case hybrid_recs st matched_id of
                               Inl e \<Rightarrow> Inl e
                             | Inr results \<Rightarrow>
                                 if results \<noteq> []
                                 then Inr (map (normalize_product B) (take 20 results))
                                 else fallback_scoring B (PRODUCTS_MAP st) query))))"

section \<open>The behaviour the specification describes\<close>

text \<open>
  The predicates and results of the specification, written over the same data so that
  they can be compared with the loops above. A name matches when the record's
  \<^verbatim>\<open>product_name\<close> is a str whose lower-cased form contains the query; a record
  without the field has the empty name.
\<close>

definition has_str_name :: "'f obj \<Rightarrow> bool" where
  "has_str_name p = (case dict_get p ''product_name'' (JStr []) of JStr s \<Rightarrow> True | _ \<Rightarrow> False)"

definition str_names :: "(string \<times> 'f obj) list \<Rightarrow> bool" where
  "str_names products = list_all (\<lambda>kv. has_str_name (snd kv)) products"

definition name_hit :: "string \<Rightarrow> 'f obj \<Rightarrow> bool" where
  "name_hit query p =
     (case dict_get p ''product_name'' (JStr []) of
        JStr s \<Rightarrow> py_in query (py_lower s)
      | _ \<Rightarrow> False)"

text \<open>
  The brand of a record is the str in its \<^verbatim>\<open>Brand\<close> field; a record without such a
  field has no brand, so no query equals it and none is contained in it.
\<close>

definition brand_text :: "'f obj \<Rightarrow> string option" where
  "brand_text p = (case map_of p ''Brand'' of Some (JStr b) \<Rightarrow> Some b | _ \<Rightarrow> None)"

definition str_brands :: "(string \<times> 'f obj) list \<Rightarrow> bool" where
  "str_brands products = list_all (\<lambda>kv. brand_text (snd kv) \<noteq> None) products"

definition brand_equals :: "string \<Rightarrow> 'f obj \<Rightarrow> bool" where
  "brand_equals query p = (case brand_text p of None \<Rightarrow> False | Some b \<Rightarrow> py_lower b = query)"

definition brand_contains :: "string \<Rightarrow> 'f obj \<Rightarrow> bool" where
  "brand_contains query p = (case brand_text p of None \<Rightarrow> False | Some b \<Rightarrow> py_in query (py_lower b))"

text \<open>The score of the fallback stage: 10 for the name, 5 for the brand, 15 for both.\<close>

definition score_of :: "string \<Rightarrow> 'f obj \<Rightarrow> nat" where
  "score_of query p =
     (if name_hit query p then 10 else 0) + (if brand_contains query p then 5 else 0)"

text \<open>The records with a positive score, by descending score, ties in catalog order.\<close>

definition ranked :: "string \<Rightarrow> (string \<times> 'f obj) list \<Rightarrow> 'f obj list" where
  "ranked query products =
     sort_reverse (score_of query) (filter (\<lambda>p. 0 < score_of query p) (map snd products))"

text \<open>The anchor: the id of the first record, in catalog order, whose name matches.\<close>

definition anchor_of :: "string \<Rightarrow> (string \<times> 'f obj) list \<Rightarrow> string option" where
  "anchor_of query products = map_option fst (List.find (\<lambda>kv. name_hit query (snd kv)) products)"

text \<open>
  A stub resolves to the catalog record that the name index gives for its name; a stub
  whose name is not in the index resolves to nothing.
\<close>

definition resolve_stub ::
  "(string \<times> 'f obj) list \<Rightarrow> (string \<times> string) list \<Rightarrow> 'f json \<Rightarrow> 'f obj option" where
  "resolve_stub products names stub =
     (case stub of
        JObj d \<Rightarrow>
          (case dict_get d ''product_name'' JNull of
             JStr nm \<Rightarrow> (case map_of names nm of None \<Rightarrow> None | Some pid \<Rightarrow> map_of products pid)
           | _ \<Rightarrow> None)
      | _ \<Rightarrow> None)"

text \<open>
  The shape of the recommendation file: a map from product id to a list of stubs, each
  stub an object whose \<^verbatim>\<open>product_name\<close>, if any, is not a list or an object.
\<close>

definition wf_stub :: "'f json \<Rightarrow> bool" where
  "wf_stub stub =
     (case stub of
        JObj d \<Rightarrow>
          (case dict_get d ''product_name'' JNull of
             JList xs \<Rightarrow> False
           | JObj kvs \<Rightarrow> False
           | _ \<Rightarrow> True)
      | _ \<Rightarrow> False)"

definition wf_recs :: "'f json \<Rightarrow> bool" where
  "wf_recs r =
     (case r of
        JObj table \<Rightarrow>
          list_all (\<lambda>kv. case snd kv of JList stubs \<Rightarrow> list_all wf_stub stubs | _ \<Rightarrow> False) table
      | _ \<Rightarrow> False)"

definition rec_table :: "'f json \<Rightarrow> (string \<times> 'f json) list" where
  "rec_table r = (case r of JObj table \<Rightarrow> table | _ \<Rightarrow> [])"

definition stubs_of :: "'f json \<Rightarrow> 'f json list" where
  "stubs_of v = (case v of JList xs \<Rightarrow> xs | _ \<Rightarrow> [])"

text \<open>
  The records recommended for a query: the stubs stored under the anchor, resolved, when
  the anchor is not the empty string and is a key of the table; none otherwise.
\<close>

definition recommended :: "'f state \<Rightarrow> string \<Rightarrow> 'f obj list" where
  "recommended st query =
     (case anchor_of query (PRODUCTS_MAP st) of
        None \<Rightarrow> []
      | Some a \<Rightarrow>
          if a = [] then []
          else (case map_of (rec_table (RECOMMENDATIONS st)) a of
                  None \<Rightarrow> []
                | Some v \<Rightarrow>
                    List.map_filter (resolve_stub (PRODUCTS_MAP st) (PRODUCT_NAMES_MAP st))
                      (stubs_of v)))"

text \<open>Every id stored in the name index is a key of the catalog.\<close>

definition names_in_catalog :: "(string \<times> 'f obj) list \<Rightarrow> (string \<times> string) list \<Rightarrow> bool" where
  "names_in_catalog products names = list_all (\<lambda>kv. map_of products (snd kv) \<noteq> None) names"

text \<open>What the loop of \<^verbatim>\<open>load_data\<close> maintains on the two maps.\<close>

definition load_inv :: "(string \<times> 'f obj) list \<times> (string \<times> string) list \<Rightarrow> bool" where
  "load_inv maps =
     (''None'' \<notin> fst ` set (fst maps) \<and> ''None'' \<notin> snd ` set (snd maps) \<and>
      names_in_catalog (fst maps) (snd maps))"

section \<open>Example data\<close>

text \<open>
  An instance of the built-ins on floats with integral values: \<^verbatim>\<open>float(n)\<close> is \<open>n\<close>,
  no str parses, a float prints with \<^verbatim>\<open>.0\<close> and a str in single quotes. It agrees
  with CPython on what the examples below compute (\<^verbatim>\<open>float(0)\<close>, \<^verbatim>\<open>float(10)\<close>,
  \<^verbatim>\<open>float("n/a")\<close>).
\<close>

definition example_builtins :: "int builtins" where
  "example_builtins =
     \<lparr>float_of_int = Some, float_of_str = (\<lambda>s. None),
      repr_float = (\<lambda>x. str_int x @ ''.0''),
      repr_str = (\<lambda>s. CHR 0x27 # s @ [CHR 0x27])\<rparr>"

definition red_shoe :: "int obj" where
  "red_shoe = [(''product_id_numeric'', JInt 1), (''product_name'', JStr ''Red Shoe''),
               (''Brand'', JStr ''Acme Corp''), (''actual_price'', JInt 10),
               (''discounted_price'', JStr ''n/a'')]"

definition acme_hat :: "int obj" where
  "acme_hat = [(''product_id_numeric'', JInt 2), (''product_name'', JStr '' Acme Hat ''),
               (''Brand'', JStr ''Hatco'')]"

definition acme_sock :: "int obj" where
  "acme_sock = [(''product_id_numeric'', JInt 3), (''product_name'', JStr ''Acme Sock''),
                (''Brand'', JStr ''ACME Co'')]"

definition acme_tie :: "int obj" where
  "acme_tie = [(''product_id_numeric'', JInt 4), (''product_name'', JStr ''Acme Tie''),
               (''Brand'', JStr ''Acme'')]"

definition ghost :: "int obj" where
  "ghost = [(''product_id_numeric'', JNull), (''product_name'', JStr ''Ghost'')]"

definition shop_dir :: "int data_dir" where
  "shop_dir =
     \<lparr>product_matrix =
        Parsed (JList [JObj red_shoe, JObj acme_hat, JStr ''note'', JObj acme_sock,
                       JObj ghost, JObj acme_tie]),
      product_index_map = Missing,
      precomputed_hybrid =
        Parsed (JObj [(''4'', JList [JObj [(''product_name'', JStr ''Red Shoe'')],
                                     JObj [(''product_name'', JStr ''Ghost'')],
                                     JObj [(''product_name'', JStr ''Acme Hat'')]])])\<rparr>"

definition shop :: "int state" where
  "shop = load_data example_builtins (Some shop_dir)"

text \<open>A record with neither an id field nor a brand.\<close>

definition plain_shoe :: "int obj" where
  "plain_shoe = [(''product_name'', JStr ''Shoe'')]"

definition dir_no_id :: "int data_dir" where
  "dir_no_id =
     \<lparr>product_matrix = Parsed (JList [JObj plain_shoe]),
      product_index_map = Missing, precomputed_hybrid = Missing\<rparr>"

text \<open>A record whose \<^verbatim>\<open>product_name\<close> is a number.\<close>

definition dir_bad_name :: "int data_dir" where
  "dir_bad_name =
     \<lparr>product_matrix = Parsed (JList [JObj [(''product_id'', JInt 7), (''product_name'', JInt 5)]]),
      product_index_map = Missing, precomputed_hybrid = Missing\<rparr>"

text \<open>A record whose id is the empty string, with recommendations stored under it.\<close>

definition nameless_shoe :: "int obj" where
  "nameless_shoe = [(''product_id'', JStr []), (''product_name'', JStr ''Shoe''),
                    (''Brand'', JStr ''Acme'')]"

definition hat :: "int obj" where
  "hat = [(''product_id'', JStr ''2''), (''product_name'', JStr ''Hat''), (''Brand'', JStr ''Acme'')]"

definition dir_empty_id :: "int data_dir" where
  "dir_empty_id =
     \<lparr>product_matrix = Missing,
      product_index_map = Parsed (JList [JObj nameless_shoe, JObj hat]),
      precomputed_hybrid = Parsed (JObj [([], JList [JObj [(''product_name'', JStr ''Hat'')]])])\<rparr>"

text \<open>A record of the brand \<^verbatim>\<open>None\<close>, and records without a brand.\<close>

definition brand_none :: "int obj" where
  "brand_none = [(''product_id'', JInt 1), (''product_name'', JStr ''x''), (''Brand'', JStr ''None'')]"

definition none_such :: "int obj" where
  "none_such = [(''product_id'', JInt 2), (''product_name'', JStr ''None such'')]"

definition top_hat :: "int obj" where
  "top_hat = [(''product_id'', JInt 3), (''product_name'', JStr ''Hat'')]"

definition dir_brand_none :: "int data_dir" where
  "dir_brand_none =
     \<lparr>product_matrix = Parsed (JList [JObj brand_none, JObj none_such]),
      product_index_map = Missing, precomputed_hybrid = Missing\<rparr>"

definition dir_none_recs :: "int data_dir" where
  "dir_none_recs =
     \<lparr>product_matrix = Parsed (JList [JObj none_such, JObj top_hat]),
      product_index_map = Missing,
      precomputed_hybrid = Parsed (JObj [(''2'', JList [JObj [(''product_name'', JStr ''Hat'')]])])\<rparr>"

definition boot :: "int obj" where
  "boot = [(''product_id'', JInt 1), (''product_name'', JStr ''Boot''), (''Brand'', JStr ''Acme'')]"

definition sock :: "int obj" where
  "sock = [(''product_id'', JInt 2), (''product_name'', JStr ''Sock'')]"

definition dir_boot_sock :: "int data_dir" where
  "dir_boot_sock =
     \<lparr>product_matrix = Parsed (JList [JObj boot, JObj sock]),
      product_index_map = Missing, precomputed_hybrid = Missing\<rparr>"

text \<open>A recommendation list that holds a number where a stub should be.\<close>

definition dir_bad_stub :: "int data_dir" where
  "dir_bad_stub =
     \<lparr>product_matrix = Parsed (JList [JObj acme_tie]),
      product_index_map = Missing,
      precomputed_hybrid = Parsed (JObj [(''4'', JList [JInt 5])])\<rparr>"

text \<open>Twenty-five records of one brand.\<close>

definition crowd :: "int state" where
  "crowd =
     \<lparr>PRODUCTS_MAP = map (\<lambda>n. (str_nat n, [(''Brand'', JStr ''Acme'')])) [0..<25],
      PRODUCT_NAMES_MAP = [], RECOMMENDATIONS = JObj []\<rparr>"

section \<open>Strings and sorting\<close>

lemma lower_char_space: "isspace c \<Longrightarrow> lower_char c = c"
  by (auto simp: isspace_def lower_char_def Let_def)

lemma strip_lower_blank:
  assumes "\<forall>c\<in>set s. isspace c"
  shows "py_strip (py_lower s) = []"
proof -
  have "py_lower s = s"
    unfolding py_lower_def using assms by (intro map_idI) (simp add: lower_char_space)
  moreover have "dropWhile isspace s = []"
    using assms by (induction s) simp_all
  ultimately show ?thesis by (simp only: py_strip_def rev.simps dropWhile.simps)
qed

lemma insort_key_map:
  "insort_key k (h x) (map h xs) = map h (insort_key (\<lambda>y. k (h y)) x xs)"
  by (induction xs) simp_all

lemma sort_key_map:
  "sort_key k (map h xs) = map h (sort_key (\<lambda>y. k (h y)) xs)"
  by (induction xs) (simp_all add: insort_key_map)

lemma sort_reverse_pairs:
  "map snd (sort_reverse fst (map (\<lambda>p. (f p, p)) xs)) = sort_reverse f xs"
  by (simp add: sort_reverse_def sort_key_map o_def)

lemma sort_reverse_sorted: "sorted_wrt (\<lambda>a b. b \<le> a) (map f (sort_reverse f xs))"
proof -
  have "sorted (map (\<lambda>x. - int (f x)) (sort_reverse f xs))"
    by (simp add: sort_reverse_def)
  then show ?thesis
    by (simp add: sorted_wrt_map sorted_map)
qed

lemma sort_reverse_stable: "filter (\<lambda>x. f x = s) (sort_reverse f xs) = filter (\<lambda>x. f x = s) xs"
proof -
  have "filter (\<lambda>x. - int (f x) = - int s) (sort_reverse f xs) = filter (\<lambda>x. - int (f x) = - int s) xs"
    unfolding sort_reverse_def by (rule sort_key_stable)
  then show ?thesis by simp
qed

lemma sort_reverse_mset: "mset (sort_reverse f xs) = mset xs"
  by (simp add: sort_reverse_def)

section \<open>The loops against the specification's functions\<close>

lemma name_lower_str:
  assumes "has_str_name p"
  shows "\<exists>n. name_lower p = Inr n \<and> py_in q n = name_hit q p"
  using assms by (auto simp: has_str_name_def name_lower_def name_hit_def split: json.splits)

lemma brand_lower_text:
  assumes "brand_text p = Some b"
  shows "brand_lower B p = py_lower b"
  using assms
  by (auto simp: brand_text_def brand_lower_def dict_get_def py_str_def
      split: option.splits json.splits)

lemma brand_matches_str_brands:
  assumes "str_brands products"
  shows "brand_matches B products query = filter (brand_equals query) (map snd products)"
proof -
  have "(query = brand_lower B p) = brand_equals query p" if "p \<in> set (map snd products)" for p
  proof -
    from that assms obtain b where b: "brand_text p = Some b"
      by (auto simp: str_brands_def list_all_iff)
    with brand_lower_text [OF b, of B] show ?thesis
      by (auto simp: brand_equals_def)
  qed
  then show ?thesis
    unfolding brand_matches_def by (intro filter_cong) simp_all
qed

lemma brand_bonus_text:
  assumes "brand_text p = Some b"
  shows "brand_bonus B q p = (if brand_contains q p then 5 else 0)"
  using assms brand_lower_text [OF assms, of B] by (simp add: brand_bonus_def brand_contains_def)

lemma score_items_str_fields:
  "str_names products \<Longrightarrow> str_brands products \<Longrightarrow>
   score_items B q products acc =
     Inr (acc @ map (\<lambda>p. (score_of q p, p)) (filter (\<lambda>p. 0 < score_of q p) (map snd products)))"
proof (induction products arbitrary: acc)
  case Nil
  then show ?case by simp
next
  case (Cons kv products)
  obtain pid p where kv: "kv = (pid, p)" by (cases kv)
  from Cons.prems kv have sp: "has_str_name p" and rest: "str_names products"
    by (simp_all add: str_names_def)
  from Cons.prems kv obtain b where b: "brand_text p = Some b" and restb: "str_brands products"
    by (auto simp: str_brands_def)
  from name_lower_str [OF sp, of q] obtain n where n: "name_lower p = Inr n" "py_in q n = name_hit q p"
    by blast
  show ?case
    using Cons.IH [OF rest restb] n kv brand_bonus_text [OF b, of B q]
    by (simp add: score_of_def Let_def)
qed

lemma fallback_scoring_str_fields:
  assumes "str_names products" and "str_brands products"
  shows "fallback_scoring B products q = Inr (map (normalize_product B) (take 20 (ranked q products)))"
proof -
  let ?kept = "filter (\<lambda>p. 0 < score_of q p) (map snd products)"
  have si: "score_items B q products [] = Inr (map (\<lambda>p. (score_of q p, p)) ?kept)"
    using score_items_str_fields [OF assms, of B q "[]"] by simp
  have conv: "map (\<lambda>item. normalize_product B (snd item)) (take 20 xs) =
      map (normalize_product B) (take 20 (map snd xs))" for xs
    by (simp add: take_map)
  show ?thesis
    by (simp only: fallback_scoring_def si sum.case conv ranked_def sort_reverse_pairs)
qed

lemma find_matched_id_str_names:
  "str_names products \<Longrightarrow> find_matched_id q products = Inr (anchor_of q products)"
proof (induction products)
  case Nil
  then show ?case by (simp add: anchor_of_def)
next
  case (Cons kv products)
  obtain pid p where kv: "kv = (pid, p)" by (cases kv)
  from Cons.prems kv have sp: "has_str_name p" and rest: "str_names products"
    by (simp_all add: str_names_def)
  from name_lower_str [OF sp, of q] obtain n where n: "name_lower p = Inr n" "py_in q n = name_hit q p"
    by blast
  show ?case
    using Cons.IH [OF rest] n kv by (simp add: anchor_of_def)
qed

lemma collect_recs_wf:
  "list_all wf_stub stubs \<Longrightarrow> names_in_catalog products names \<Longrightarrow>
   collect_recs products names stubs acc =
     Inr (acc @ List.map_filter (resolve_stub products names) stubs)"
proof (induction stubs arbitrary: acc)
  case Nil
  then show ?case by simp
next
  case (Cons r stubs)
  from Cons.prems have wr: "wf_stub r" and rest: "list_all wf_stub stubs" by simp_all
  from wr obtain d where r: "r = JObj d" by (auto simp: wf_stub_def split: json.splits)
  let ?nm = "dict_get d ''product_name'' JNull"
  have rn: "rec_name r = Inr ?nm" by (simp add: rec_name_def r)
  show ?case
  proof (cases ?nm)
    case (JStr s)
    show ?thesis
    proof (cases "map_of names s")
      case None
      then show ?thesis
        using Cons.IH [OF rest Cons.prems(2)] rn JStr r
        by (simp add: name_known_def resolve_stub_def)
    next
      case (Some pid)
      then have "(s, pid) \<in> set names" by (rule map_of_SomeD)
      with Cons.prems(2) obtain p where p: "map_of products pid = Some p"
        by (auto simp: names_in_catalog_def list_all_iff)
      show ?thesis
        using Cons.IH [OF rest Cons.prems(2)] rn JStr r Some p
        by (simp add: name_known_def resolve_stub_def)
    qed
  next
    case (JList xs)
    with wr r show ?thesis by (simp add: wf_stub_def)
  next
    case (JObj kvs)
    with wr r show ?thesis by (simp add: wf_stub_def)
  qed (use Cons.IH [OF rest Cons.prems(2)] rn r in \<open>simp_all add: name_known_def resolve_stub_def\<close>)
qed

lemma hybrid_recs_wf:
  assumes "wf_recs (RECOMMENDATIONS st)"
    and "names_in_catalog (PRODUCTS_MAP st) (PRODUCT_NAMES_MAP st)"
  shows "hybrid_recs st m =
     Inr (case m of
            None \<Rightarrow> []
          | Some a \<Rightarrow>
              (case (if a = [] then None else map_of (rec_table (RECOMMENDATIONS st)) a) of
                 None \<Rightarrow> []
               | Some v \<Rightarrow>
                   List.map_filter (resolve_stub (PRODUCTS_MAP st) (PRODUCT_NAMES_MAP st)) (stubs_of v)))"
proof (cases m)
  case None
  then show ?thesis by (simp add: hybrid_recs_def)
next
  case (Some a)
  from assms(1) obtain table where t: "RECOMMENDATIONS st = JObj table"
    and wt: "list_all (\<lambda>kv. case snd kv of JList stubs \<Rightarrow> list_all wf_stub stubs | _ \<Rightarrow> False) table"
    by (auto simp: wf_recs_def split: json.splits)
  show ?thesis
  proof (cases "a = []")
    case True
    with Some show ?thesis by (simp add: hybrid_recs_def)
  next
    case False
    show ?thesis
    proof (cases "map_of table a")
      case None
      then have "a \<notin> fst ` set table" by (simp add: map_of_eq_None_iff)
      with Some False None t show ?thesis
        by (simp add: hybrid_recs_def py_contains_def rec_table_def)
    next
      case (Some v)
      then have mem: "(a, v) \<in> set table" by (rule map_of_SomeD)
      then have "a \<in> fst ` set table" by force
      from mem wt have "case snd (a, v) of JList stubs \<Rightarrow> list_all wf_stub stubs | _ \<Rightarrow> False"
        unfolding list_all_iff by blast
      then obtain stubs where v: "v = JList stubs" and ws: "list_all wf_stub stubs"
        by (cases v) simp_all
      show ?thesis
        using \<open>m = Some a\<close> False Some t v \<open>a \<in> fst ` set table\<close>
          collect_recs_wf [OF ws assms(2), of "[]"]
        by (simp add: hybrid_recs_def py_contains_def py_getitem_def py_iter_def rec_table_def stubs_of_def)
    qed
  qed
qed

lemma search_by_stages:
  assumes "query = py_strip (py_lower s)" and "query \<noteq> []"
    and "brand_matches B (PRODUCTS_MAP st) query = []"
  shows "search_products B st (Some s) =
     (case find_matched_id query (PRODUCTS_MAP st) of
        Inl e \<Rightarrow> Inl e
      | Inr m \<Rightarrow>
          (case hybrid_recs st m of
             Inl e \<Rightarrow> Inl e
           | Inr results \<Rightarrow>
               if results \<noteq> [] then Inr (map (normalize_product B) (take 20 results))
               else fallback_scoring B (PRODUCTS_MAP st) query))"
  unfolding assms(1) using assms(2,3) [unfolded assms(1)]
  by (simp add: search_products_def Let_def)


lemma hybrid_recs_wf_recommended:
  assumes "wf_recs (RECOMMENDATIONS st)"
    and "names_in_catalog (PRODUCTS_MAP st) (PRODUCT_NAMES_MAP st)"
  shows "hybrid_recs st (anchor_of query (PRODUCTS_MAP st)) = Inr (recommended st query)"
  using hybrid_recs_wf [OF assms, of "anchor_of query (PRODUCTS_MAP st)"]
  by (simp add: recommended_def split: option.splits)

section \<open>What load_data maintains\<close>

lemma update_values: "snd ` set (AList.update k v al) \<subseteq> insert v (snd ` set al)"
  by (induction al) auto

lemma names_in_catalog_iff:
  "names_in_catalog products names = (snd ` set names \<subseteq> fst ` set products)"
  by (auto simp: names_in_catalog_def list_all_iff map_of_eq_None_iff)

lemma load_inv_update_products:
  assumes "load_inv (products, names)" and "pid \<noteq> ''None''"
  shows "load_inv (AList.update pid d products, names)"
  using assms by (auto simp: load_inv_def names_in_catalog_iff dom_update)

lemma load_inv_update_both:
  assumes "load_inv (products, names)" and "pid \<noteq> ''None''"
  shows "load_inv (AList.update pid d products, AList.update nm pid names)"
proof -
  from assms(1) have sub: "snd ` set names \<subseteq> fst ` set products"
    and p: "''None'' \<notin> fst ` set products" and n: "''None'' \<notin> snd ` set names"
    by (simp_all add: load_inv_def names_in_catalog_iff)
  have vals: "snd ` set (AList.update nm pid names) \<subseteq> insert pid (snd ` set names)"
    by (rule update_values)
  have keys: "fst ` set (AList.update pid d products) = insert pid (fst ` set products)"
    by (simp add: dom_update)
  from vals sub have "snd ` set (AList.update nm pid names) \<subseteq> insert pid (fst ` set products)"
    by blast
  moreover from vals n assms(2) have "''None'' \<notin> snd ` set (AList.update nm pid names)"
    by blast
  moreover from p assms(2) have "''None'' \<notin> insert pid (fst ` set products)"
    by blast
  ultimately show ?thesis
    by (simp only: load_inv_def names_in_catalog_iff keys fst_conv snd_conv simp_thms)
qed

lemma load_item_inv:
  assumes "load_inv maps"
  shows "load_inv (snd (load_item B item maps))"
proof (cases item)
  case (JObj d)
  obtain products names where maps: "maps = (products, names)" by (cases maps)
  show ?thesis
  proof (cases "derive_pid B d = ''None''")
    case True
    with JObj assms show ?thesis by (simp add: load_item_def)
  next
    case False
    then show ?thesis
      using JObj maps assms load_inv_update_products [of products names "derive_pid B d" d]
        load_inv_update_both [of products names "derive_pid B d" d]
      by (simp add: load_item_def Let_def split: json.splits)
  qed
qed (use assms in \<open>simp_all add: load_item_def\<close>)

lemma load_items_inv:
  "load_inv maps \<Longrightarrow> load_inv (snd (load_items B items maps))"
proof (induction items arbitrary: maps)
  case Nil
  then show ?case by simp
next
  case (Cons item items)
  obtain e maps' where r: "load_item B item maps = (e, maps')" by (cases "load_item B item maps")
  with load_item_inv [OF Cons.prems, of B item] have inv': "load_inv maps'" by simp
  show ?case
  proof (cases e)
    case None
    with r Cons.IH [OF inv'] show ?thesis by simp
  next
    case (Some err)
    with r inv' show ?thesis by simp
  qed
qed

lemma load_data_inv:
  "load_inv (PRODUCTS_MAP (load_data B dir), PRODUCT_NAMES_MAP (load_data B dir))"
proof -
  have e: "load_inv (([], []) :: (string \<times> 'a obj) list \<times> (string \<times> string) list)"
    by (simp add: load_inv_def names_in_catalog_def)
  show ?thesis
  proof (cases dir)
    case None
    with e show ?thesis by (simp add: load_data_def)
  next
    case (Some d)
    show ?thesis
    proof (cases "matrix_path d")
      case (Parsed raw)
      with Some load_items_inv [OF e, of B "data_list raw"] show ?thesis
        by (simp add: load_data_def Let_def)
    qed (use Some e in \<open>simp_all add: load_data_def Let_def\<close>)
  qed
qed

lemma collect_recs_no_KeyError:
  "names_in_catalog products names \<Longrightarrow> collect_recs products names rs acc \<noteq> Inl KeyError"
proof (induction rs arbitrary: acc)
  case Nil
  then show ?case by simp
next
  case (Cons r rs)
  have known: False if "map_of names s = Some pid" and "map_of products pid = None" for s pid
  proof -
    from that(1) have "(s, pid) \<in> set names" by (rule map_of_SomeD)
    with Cons.prems that(2) show ?thesis by (auto simp: names_in_catalog_def list_all_iff)
  qed
  show ?case
    using Cons.IH [OF Cons.prems] known
    by (auto simp: rec_name_def name_known_def split: json.splits sum.splits option.splits)
qed

section \<open>Absent fields and the top products\<close>

text \<open>
  A record without a name has the empty name, which contains no query that is not empty.
  A record without a brand has the brand \<^verbatim>\<open>none\<close>, whatever the built-ins.
\<close>

lemma absent_name_no_hit:
  assumes "map_of p ''product_name'' = None" and "query \<noteq> []"
  shows "name_lower p = Inr [] \<and> \<not> name_hit query p"
  using assms by (simp add: name_lower_def name_hit_def dict_get_def py_lower_def)

lemma lower_None: "py_lower ''None'' = ''none''"
  by code_simp

lemma absent_brand_lower:
  assumes "map_of p ''Brand'' = None"
  shows "brand_lower B p = ''none''"
  using assms by (simp add: brand_lower_def dict_get_def py_str_def lower_None)

lemma top_products_at_most_20: "length (get_top_products B st) \<le> 20"
  by (simp add: get_top_products_def)

section \<open>Search on catalogs whose names and brands are strings\<close>

text \<open>
  On a catalog in which every record has a str name and a str brand, the code's
  comparisons are those of the specification: the first two lemmas are the brand stage and
  the fallback stage of \<^verbatim>\<open>search_products\<close> there, the others are the order of \<open>ranked\<close>.
\<close>

lemma brand_stage_on_str_brands:
  assumes "query = py_strip (py_lower s)" and "query \<noteq> []"
    and "str_brands (PRODUCTS_MAP st)"
    and "list_ex (brand_equals query) (map snd (PRODUCTS_MAP st))"
  shows "search_products B st (Some s) =
           Inr (map (normalize_product B)
                  (take 20 (filter (brand_equals query) (map snd (PRODUCTS_MAP st)))))"
proof -
  from assms(4) have "filter (brand_equals query) (map snd (PRODUCTS_MAP st)) \<noteq> []"
    by (simp add: filter_empty_conv list_ex_iff)
  with assms(1,2) brand_matches_str_brands [OF assms(3), of B query] show ?thesis
    by (simp add: search_products_def Let_def)
qed

lemma fallback_stage_on_str_fields:
  assumes "query = py_strip (py_lower s)" and "query \<noteq> []"
    and "str_names (PRODUCTS_MAP st)" and "str_brands (PRODUCTS_MAP st)"
    and "\<not> list_ex (brand_equals query) (map snd (PRODUCTS_MAP st))"
    and "hybrid_recs st (anchor_of query (PRODUCTS_MAP st)) = Inr []"
  shows "search_products B st (Some s) =
           Inr (map (normalize_product B) (take 20 (ranked query (PRODUCTS_MAP st))))"
proof -
  from assms(5) have bm: "brand_matches B (PRODUCTS_MAP st) query = []"
    by (simp add: brand_matches_str_brands [OF assms(4)] filter_empty_conv list_ex_iff)
  show ?thesis
    by (simp only: search_by_stages [OF assms(1,2) bm] find_matched_id_str_names [OF assms(3)]
        assms(6) fallback_scoring_str_fields [OF assms(3,4)] sum.case simp_thms if_False)
qed

lemma ranked_mset:
  "mset (ranked query products) = mset (filter (\<lambda>p. 0 < score_of query p) (map snd products))"
  by (simp add: ranked_def sort_reverse_mset)

lemma ranked_sorted:
  "sorted_wrt (\<lambda>a b. b \<le> a) (map (score_of query) (ranked query products))"
  by (simp add: ranked_def sort_reverse_sorted)

lemma ranked_stable:
  "filter (\<lambda>p. score_of query p = k) (ranked query products) =
   filter (\<lambda>p. score_of query p = k) (filter (\<lambda>p. 0 < score_of query p) (map snd products))"
  unfolding ranked_def by (rule sort_reverse_stable)

section \<open>The claims\<close>

subsection \<open>C1: the brand stage and a record without a brand\<close>

text \<open>
  C1 says that when the brand of some record equals the query, \<^verbatim>\<open>search_products\<close>
  returns the records of that brand and no record that matches by its name only. It fails
  on the code: the comparison of line 226 reads the brand of a record without the field
  as \<^verbatim>\<open>none\<close>. On a catalog with a record of the brand \<^verbatim>\<open>None\<close> and a record named
  \<^verbatim>\<open>None such\<close> that has no brand, the query \<^verbatim>\<open>none\<close> returns both, the second of
  which matches by its name only.
\<close>

theorem brand_stage_returns_name_only_match:
  "brand_equals ''none'' brand_none
   \<and> brand_text none_such = None
   \<and> name_hit ''none'' none_such
   \<and> filter (brand_equals ''none'')
        (map snd (PRODUCTS_MAP (load_data example_builtins (Some dir_brand_none)))) = [brand_none]
   \<and> search_products example_builtins (load_data example_builtins (Some dir_brand_none)) (Some ''none'') =
       Inr [normalize_product example_builtins brand_none, normalize_product example_builtins none_such]"
  by code_simp

subsection \<open>C2: the recommendation stage\<close>

text \<open>
  C2, as the code has it, on the state that \<^verbatim>\<open>load_data\<close> leaves when every record has
  a str name and a str brand and the recommendation table maps ids to lists of stubs.
  Take a query whose lower-cased, trimmed form is not empty and that the brand of no
  record equals. The anchor is the id of the first record, in catalog order, whose name
  contains the query. If the anchor is not the empty string and is a key of the
  recommendation table, the stubs stored under it are resolved through the name index to
  catalog records, stubs with an unknown name being skipped (\<open>recommended\<close>); if some
  record is resolved, \<^verbatim>\<open>search_products\<close> returns the first 20 of them, normalized, in
  recommendation order. With no anchor, an empty anchor, an anchor that is no key, or
  nothing resolved, it returns the first 20 records of the fallback ranking.
\<close>

theorem hybrid_stage_result:
  assumes "st = load_data B dir"
    and "query = py_strip (py_lower s)" and "query \<noteq> []"
    and "str_names (PRODUCTS_MAP st)" and "str_brands (PRODUCTS_MAP st)"
    and "wf_recs (RECOMMENDATIONS st)"
    and "\<not> list_ex (brand_equals query) (map snd (PRODUCTS_MAP st))"
  shows "search_products B st (Some s) =
           Inr (map (normalize_product B)
                  (take 20 (if recommended st query \<noteq> [] then recommended st query
                            else ranked query (PRODUCTS_MAP st))))"
proof -
  have nic: "names_in_catalog (PRODUCTS_MAP st) (PRODUCT_NAMES_MAP st)"
    using load_data_inv [of B dir] by (simp add: load_inv_def assms(1))
  from assms(7) have bm: "brand_matches B (PRODUCTS_MAP st) query = []"
    by (simp add: brand_matches_str_brands [OF assms(5)] filter_empty_conv list_ex_iff)
  have "search_products B st (Some s) =
      (if recommended st query \<noteq> []
       then Inr (map (normalize_product B) (take 20 (recommended st query)))
       else Inr (map (normalize_product B) (take 20 (ranked query (PRODUCTS_MAP st)))))"
    by (simp only: search_by_stages [OF assms(2,3) bm] find_matched_id_str_names [OF assms(4)]
        hybrid_recs_wf_recommended [OF assms(6) nic] fallback_scoring_str_fields [OF assms(4,5)]
        sum.case)
  then show ?thesis by simp
qed

theorem hybrid_stage_result_witness:
  "anchor_of ''tie'' (PRODUCTS_MAP shop) = Some ''4''
   \<and> recommended shop ''tie'' = [red_shoe, acme_hat]
   \<and> search_products example_builtins shop (Some ''Tie'') =
       Inr [normalize_product example_builtins red_shoe, normalize_product example_builtins acme_hat]"
proof -
  have q: "''tie'' = py_strip (py_lower ''Tie'')" and ne: "''tie'' \<noteq> []"
    by code_simp+
  have sn: "str_names (PRODUCTS_MAP shop)" and sb: "str_brands (PRODUCTS_MAP shop)"
    and wr: "wf_recs (RECOMMENDATIONS shop)"
    by code_simp+
  have nb: "\<not> list_ex (brand_equals ''tie'') (map snd (PRODUCTS_MAP shop))"
    by code_simp
  have a: "anchor_of ''tie'' (PRODUCTS_MAP shop) = Some ''4''"
    by code_simp
  have r: "recommended shop ''tie'' = [red_shoe, acme_hat]"
    by code_simp
  from hybrid_stage_result [OF shop_def q ne sn sb wr nb] a r show ?thesis
    by simp
qed

text \<open>
  Where C2 as it is written fails. First, on records with str names and brands: the first
  record whose name contains \<^verbatim>\<open>shoe\<close> has the id \<^verbatim>\<open>""\<close>, that id is a key of the
  recommendation table and its stub resolves to the hat, yet the search returns the shoe,
  from the fallback stage. Second, on records without a brand: no brand equals
  \<^verbatim>\<open>none\<close> and the anchor's stub resolves to the hat, yet the search returns both
  records, from the brand stage. Third and fourth, on a name that is a number and on a
  stub that is a number: the search raises.
\<close>

theorem hybrid_stage_counterexample:
  "str_names (PRODUCTS_MAP (load_data example_builtins (Some dir_empty_id)))
   \<and> str_brands (PRODUCTS_MAP (load_data example_builtins (Some dir_empty_id)))
   \<and> \<not> list_ex (brand_equals ''shoe'')
         (map snd (PRODUCTS_MAP (load_data example_builtins (Some dir_empty_id))))
   \<and> anchor_of ''shoe'' (PRODUCTS_MAP (load_data example_builtins (Some dir_empty_id))) = Some []
   \<and> map_of (rec_table (RECOMMENDATIONS (load_data example_builtins (Some dir_empty_id)))) [] =
       Some (JList [JObj [(''product_name'', JStr ''Hat'')]])
   \<and> List.map_filter
        (resolve_stub (PRODUCTS_MAP (load_data example_builtins (Some dir_empty_id)))
           (PRODUCT_NAMES_MAP (load_data example_builtins (Some dir_empty_id))))
        [JObj [(''product_name'', JStr ''Hat'')]] = [hat]
   \<and> search_products example_builtins (load_data example_builtins (Some dir_empty_id)) (Some ''shoe'') =
       Inr [normalize_product example_builtins nameless_shoe]
   \<and> normalize_product example_builtins nameless_shoe \<noteq> normalize_product example_builtins hat
   \<and> \<not> list_ex (brand_equals ''none'')
         (map snd (PRODUCTS_MAP (load_data example_builtins (Some dir_none_recs))))
   \<and> recommended (load_data example_builtins (Some dir_none_recs)) ''none'' = [top_hat]
   \<and> search_products example_builtins (load_data example_builtins (Some dir_none_recs)) (Some ''none'') =
       Inr [normalize_product example_builtins none_such, normalize_product example_builtins top_hat]
   \<and> search_products example_builtins (load_data example_builtins (Some dir_bad_name)) (Some ''a'') =
       Inl AttributeError
   \<and> search_products example_builtins (load_data example_builtins (Some dir_bad_stub)) (Some ''tie'') =
       Inl AttributeError"
  by code_simp

subsection \<open>C3: the fallback stage and a record without a brand\<close>

text \<open>
  C3 says that the fallback stage gives a record 10 for a query contained in its name and
  5 for a query contained in its brand, and returns the records with a positive score by
  descending score, ties in catalog order. It fails on the code: line 252 reads the brand
  of a record without the field as \<^verbatim>\<open>none\<close>, which contains \<^verbatim>\<open>o\<close>. For the query
  \<^verbatim>\<open>o\<close> the boot (brand \<^verbatim>\<open>Acme\<close>) and the sock (no brand) both score 10 by their
  names and rank in catalog order, the boot first; the code returns the sock first.
\<close>

theorem fallback_stage_scores_absent_brand:
  "brand_text sock = None
   \<and> map (score_of ''o'') [boot, sock] = [10, 10]
   \<and> ranked ''o'' (PRODUCTS_MAP (load_data example_builtins (Some dir_boot_sock))) = [boot, sock]
   \<and> brand_bonus example_builtins ''o'' sock = 5
   \<and> \<not> list_ex (brand_equals ''o'')
         (map snd (PRODUCTS_MAP (load_data example_builtins (Some dir_boot_sock))))
   \<and> recommended (load_data example_builtins (Some dir_boot_sock)) ''o'' = []
   \<and> search_products example_builtins (load_data example_builtins (Some dir_boot_sock)) (Some ''o'') =
       Inr [normalize_product example_builtins sock, normalize_product example_builtins boot]"
  by code_simp

subsection \<open>C4: ids that print as None\<close>

text \<open>
  C4, as the code has it. A record whose derived id (the numeric-id field, else the
  generic id field, else the literal \<^verbatim>\<open>N/A\<close>) prints as \<^verbatim>\<open>None\<close> changes neither
  map, and after \<^verbatim>\<open>load_data\<close> no catalog key and no id of the name index is
  \<^verbatim>\<open>None\<close>.
\<close>

theorem load_skips_None_ids:
  "(derive_pid B d = ''None'' \<longrightarrow> load_item B (JObj d) maps = (None, maps))
   \<and> ''None'' \<notin> fst ` set (PRODUCTS_MAP (load_data B dir))
   \<and> ''None'' \<notin> snd ` set (PRODUCT_NAMES_MAP (load_data B dir))"
  using load_data_inv [of B dir] by (simp add: load_inv_def load_item_def)

theorem load_skips_None_ids_witness:
  "derive_pid example_builtins ghost = ''None''
   \<and> load_item example_builtins (JObj ghost) ([(''1'', red_shoe)], [(''Red Shoe'', ''1'')]) =
       (None, [(''1'', red_shoe)], [(''Red Shoe'', ''1'')])
   \<and> map fst (PRODUCTS_MAP shop) = [''1'', ''2'', ''3'', ''4'']
   \<and> ''None'' \<notin> fst ` set (PRODUCTS_MAP shop)"
proof -
  have d: "derive_pid example_builtins ghost = ''None''"
    by code_simp
  have k: "map fst (PRODUCTS_MAP shop) = [''1'', ''2'', ''3'', ''4'']"
    by code_simp
  from load_skips_None_ids [of example_builtins ghost
      "([(''1'', red_shoe)], [(''Red Shoe'', ''1'')])" "Some shop_dir"] d k
  show ?thesis
    by (simp add: shop_def)
qed

text \<open>
  The literal \<^verbatim>\<open>N/A\<close> is not skipped: a record with no id field is stored, in both
  maps, under the key \<^verbatim>\<open>N/A\<close>.
\<close>

theorem load_keeps_NA_counterexample:
  "derive_pid example_builtins plain_shoe = ''N/A''
   \<and> PRODUCTS_MAP (load_data example_builtins (Some dir_no_id)) = [(''N/A'', plain_shoe)]
   \<and> PRODUCT_NAMES_MAP (load_data example_builtins (Some dir_no_id)) = [(''Shoe'', ''N/A'')]"
  by code_simp

subsection \<open>C5: a record without a brand\<close>

text \<open>
  C5 fails on the code. \<^verbatim>\<open>str(p.get("Brand"))\<close> is \<^verbatim>\<open>"None"\<close> for a record without
  the field, so the query \<^verbatim>\<open>none\<close> equals its brand in the first stage and the query
  \<^verbatim>\<open>on\<close> is contained in it in the fallback stage.
\<close>

theorem absent_brand_matches_none:
  "map_of plain_shoe ''Brand'' = None
   \<and> brand_matches example_builtins
        (PRODUCTS_MAP (load_data example_builtins (Some dir_no_id))) ''none'' = [plain_shoe]
   \<and> search_products example_builtins (load_data example_builtins (Some dir_no_id)) (Some ''none'') =
       Inr [normalize_product example_builtins plain_shoe]
   \<and> brand_bonus example_builtins ''on'' plain_shoe = 5
   \<and> search_products example_builtins (load_data example_builtins (Some dir_no_id)) (Some ''on'') =
       Inr [normalize_product example_builtins plain_shoe]"
  by code_simp

subsection \<open>C6: search can raise\<close>

text \<open>
  C6 fails on the code. \<^verbatim>\<open>load_data\<close> stores a record before it reads its name, so a
  record whose \<^verbatim>\<open>product_name\<close> is a number reaches the catalog; the scan of line 233
  then calls \<^verbatim>\<open>.lower()\<close> on it and \<^verbatim>\<open>search_products\<close> raises AttributeError.
\<close>

theorem search_raises_on_number_name:
  "PRODUCTS_MAP (load_data example_builtins (Some dir_bad_name)) =
     [(''7'', [(''product_id'', JInt 7), (''product_name'', JInt 5)])]
   \<and> search_products example_builtins (load_data example_builtins (Some dir_bad_name)) (Some ''a'') =
       Inl AttributeError"
  by code_simp

subsection \<open>C7: the prices of a normalized product\<close>

text \<open>
  C7. With \<^verbatim>\<open>float(0) == 0.0\<close>: the list price of \<^verbatim>\<open>normalize_product\<close> is the float
  of the \<^verbatim>\<open>actual_price\<close> field, and \<^verbatim>\<open>0.0\<close> when the field is absent or
  \<^verbatim>\<open>float\<close> raises on it; the discounted price is the float of its own field, and the
  list price just computed when the field is absent or \<^verbatim>\<open>float\<close> raises on it.
\<close>

theorem normalize_prices:
  assumes "float_of_int B 0 = Some 0"
  shows "prices (normalize_product B p) =
           (case map_of p ''actual_price'' of
              None \<Rightarrow> 0
            | Some v \<Rightarrow> (case py_float B v of None \<Rightarrow> 0 | Some x \<Rightarrow> x))
         \<and> discounted_price (normalize_product B p) =
           (case map_of p ''discounted_price'' of
              None \<Rightarrow> prices (normalize_product B p)
            | Some v \<Rightarrow> (case py_float B v of None \<Rightarrow> prices (normalize_product B p) | Some x \<Rightarrow> x))"
  using assms
  by (simp add: normalize_product_def list_price_def disc_price_def dict_get_def py_float_def Let_def
      split: option.splits)

theorem normalize_prices_witness:
  "float_of_int example_builtins 0 = Some 0
   \<and> py_float example_builtins (JStr ''n/a'') = None
   \<and> prices (normalize_product example_builtins red_shoe) = 10
   \<and> discounted_price (normalize_product example_builtins red_shoe) = 10"
proof -
  have z: "float_of_int example_builtins 0 = Some 0"
    by (simp add: example_builtins_def)
  have e: "map_of red_shoe ''actual_price'' = Some (JInt 10)"
    "map_of red_shoe ''discounted_price'' = Some (JStr ''n/a'')"
    "py_float example_builtins (JInt 10) = Some 10"
    "py_float example_builtins (JStr ''n/a'') = None"
    by code_simp+
  from normalize_prices [OF z, of red_shoe] z e show ?thesis
    by simp
qed

subsection \<open>C8: at most 20 results\<close>

text \<open>C8. Whatever the query and the state, a sequence returned by \<^verbatim>\<open>search_products\<close> has at most 20 elements.\<close>

theorem search_at_most_20:
  assumes "search_products B st q = Inr r"
  shows "length r \<le> 20"
  using assms
  by (auto simp: search_products_def fallback_scoring_def Let_def split: if_splits sum.splits)

theorem search_at_most_20_witness:
  "length (PRODUCTS_MAP crowd) = 25
   \<and> search_products example_builtins crowd (Some ''acme'') =
       Inr (replicate 20 (normalize_product example_builtins [(''Brand'', JStr ''Acme'')]))
   \<and> length (replicate 20 (normalize_product example_builtins [(''Brand'', JStr ''Acme'')])) \<le> 20"
proof -
  have n: "length (PRODUCTS_MAP crowd) = 25"
    by code_simp
  have e: "search_products example_builtins crowd (Some ''acme'') =
             Inr (replicate 20 (normalize_product example_builtins [(''Brand'', JStr ''Acme'')]))"
    by code_simp
  from search_at_most_20 [OF e] n e show ?thesis
    by simp
qed

subsection \<open>C9: the blank query\<close>

text \<open>
  C9. For an absent query and for a query made of whitespace only (the empty one
  included), \<^verbatim>\<open>search_products\<close> returns the empty sequence, whatever the state: no
  stage runs, not even on a catalog on which the scan would raise.
\<close>

theorem search_blank_query:
  assumes "q = None \<or> (\<exists>s. q = Some s \<and> (\<forall>c\<in>set s. isspace c))"
  shows "search_products B st q = Inr []"
proof -
  have "py_strip (py_lower (case q of None \<Rightarrow> [] | Some s \<Rightarrow> s)) = []"
    using assms by (auto simp: strip_lower_blank)
  then show ?thesis by (simp add: search_products_def)
qed

theorem search_blank_query_witness:
  "search_products example_builtins (load_data example_builtins (Some dir_bad_name))
     (Some [CHR 0x09, CHR '' '', CHR 0x0A]) = Inr []"
proof -
  have "\<forall>c\<in>set [CHR 0x09, CHR '' '', CHR 0x0A]. isspace c"
    by code_simp
  then have "Some [CHR 0x09, CHR '' '', CHR 0x0A] = None \<or>
      (\<exists>s. Some [CHR 0x09, CHR '' '', CHR 0x0A] = Some s \<and> (\<forall>c\<in>set s. isspace c))"
    by simp
  from search_blank_query [OF this] show ?thesis .
qed

subsection \<open>C10: the name index points into the catalog\<close>

text \<open>
  C10. After \<^verbatim>\<open>load_data\<close>, every id that the name index holds is a key of the
  catalog, so the lookup \<^verbatim>\<open>PRODUCTS_MAP[PRODUCT_NAMES_MAP[name]]\<close> of line 242 never
  raises KeyError, whatever the list of stubs.
\<close>

theorem name_index_into_catalog:
  "(\<forall>nm pid. map_of (PRODUCT_NAMES_MAP (load_data B dir)) nm = Some pid \<longrightarrow>
       (\<exists>p. map_of (PRODUCTS_MAP (load_data B dir)) pid = Some p))
   \<and> (\<forall>rs acc. collect_recs (PRODUCTS_MAP (load_data B dir)) (PRODUCT_NAMES_MAP (load_data B dir)) rs acc
         \<noteq> Inl KeyError)"
proof -
  let ?st = "load_data B dir"
  have nic: "names_in_catalog (PRODUCTS_MAP ?st) (PRODUCT_NAMES_MAP ?st)"
    using load_data_inv [of B dir] by (simp add: load_inv_def)
  have "\<exists>p. map_of (PRODUCTS_MAP ?st) pid = Some p" if "map_of (PRODUCT_NAMES_MAP ?st) nm = Some pid" for nm pid
  proof -
    from that have "(nm, pid) \<in> set (PRODUCT_NAMES_MAP ?st)" by (rule map_of_SomeD)
    with nic show ?thesis by (auto simp: names_in_catalog_def list_all_iff)
  qed
  with collect_recs_no_KeyError [OF nic] show ?thesis by blast
qed

theorem name_index_into_catalog_witness:
  "map_of (PRODUCT_NAMES_MAP shop) ''Acme Hat'' = Some ''2''
   \<and> map_of (PRODUCTS_MAP shop) ''2'' = Some acme_hat"
proof -
  have a: "map_of (PRODUCT_NAMES_MAP shop) ''Acme Hat'' = Some ''2''"
    by code_simp
  with name_index_into_catalog [of example_builtins "Some shop_dir"]
  obtain p where p: "map_of (PRODUCTS_MAP shop) ''2'' = Some p"
    unfolding shop_def by blast
  moreover have "map_of (PRODUCTS_MAP shop) ''2'' = Some acme_hat"
    by code_simp
  ultimately show ?thesis using a by simp
qed

end
